theory Spec2Isabelle
  imports Main
begin

section \<open>Gallery of Voices table to Qualtrics Advanced Format\<close>

text \<open>
  A shallow embedding of \<^verbatim>\<open>src/qualtrics/csv_to_advanced_format.py\<close>. The program
  reads a table with \<^verbatim>\<open>pandas.read_csv\<close>, opens the output file inside a
  \<^verbatim>\<open>with\<close> statement and writes one block of markup per row. The file system is an
  explicit state, every raised exception is a value, and the tabular parser of the
  pandas library is a parameter of the model.
\<close>

subsection \<open>Cell values and how an f-string formats them\<close>

text \<open>
  A cell of the parsed table is a Python string, an integer, a boolean or a float.
  The float NaN is what the parser yields for an empty cell. Any other float is carried
  by the text Python prints for it, since floating-point printing is outside this model.
\<close>

datatype cell = CStr string | CInt int | CBool bool | CNaN | CFloat string

text \<open>Python's \<^verbatim>\<open>str\<close> of a non-negative integer: its decimal digits.\<close>

fun decimal :: "nat \<Rightarrow> string" where
  "decimal n =
     (if n < 10 then [char_of (48 + n)]
      else decimal (n div 10) @ [char_of (48 + n mod 10)])"

declare decimal.simps [simp del]

text \<open>What \<^verbatim>\<open>f'{value}'\<close> inserts for a cell.\<close>

fun py_str :: "cell \<Rightarrow> string" where
  "py_str (CStr s) = s"
| "py_str (CInt i) = (if i < 0 then ''-'' @ decimal (nat (- i)) else decimal (nat i))"
| "py_str (CBool b) = (if b then ''True'' else ''False'')"
| "py_str CNaN = ''nan''"
| "py_str (CFloat r) = r"

subsection \<open>Errors\<close>

text \<open>
  \<open>FileError\<close> stands for Python's \<^verbatim>\<open>OSError\<close> on a path, \<open>ParseError\<close> for the
  parser's own errors, and \<open>KeyError\<close> for \<^verbatim>\<open>row[name]\<close> with a name that is not a
  column.
\<close>

datatype error = FileError string | ParseError string | KeyError string

subsection \<open>The parsed table\<close>

text \<open>
  A DataFrame read with \<^verbatim>\<open>index_col=False\<close>: the column names of the header and the
  data rows in file order. Its index is the default range \<open>0, 1, ...\<close>, so
  \<^verbatim>\<open>iterrows()\<close> pairs every row with its position.
\<close>

record dataframe =
  columns :: "string list"
  rows :: "cell list list"

type_synonym series = "string \<rightharpoonup> cell"

definition series_of :: "dataframe \<Rightarrow> cell list \<Rightarrow> series" where
  "series_of props r = map_of (zip (columns props) r)"

definition iterrows :: "dataframe \<Rightarrow> (nat \<times> series) list" where
  "iterrows props = enumerate 0 (map (series_of props) (rows props))"

text \<open>\<^verbatim>\<open>row[key]\<close>: a missing label raises \<^verbatim>\<open>KeyError\<close>.\<close>

definition getitem :: "series \<Rightarrow> string \<Rightarrow> error + cell" where
  "getitem row key = (case row key of None \<Rightarrow> Inl (KeyError key) | Some v \<Rightarrow> Inr v)"

subsection \<open>Files\<close>

text \<open>
  The file system maps a path to the text stored there. \<open>unreadable\<close> and
  \<open>unwritable\<close> are the paths that cannot be opened for reading and for writing, and
  \<open>opened\<close> lists the paths of the file objects that are open.
\<close>

record world =
  files :: "string \<rightharpoonup> string"
  unreadable :: "string set"
  unwritable :: "string set"
  opened :: "string list"

text \<open>
  An open text file: its path and the strings passed to \<^verbatim>\<open>write\<close> so far, in call
  order. They reach the file system when the file is closed.
\<close>

record file_object =
  path :: string
  written :: "string list"

type_synonym parser = "string \<Rightarrow> error + dataframe"

text \<open>
  \<^verbatim>\<open>pd.read_csv(filename, index_col=False)\<close>: a path that names no readable file raises
  before any parsing; otherwise the library's parser decides.
\<close>

definition read_csv :: "parser \<Rightarrow> world \<Rightarrow> string \<Rightarrow> error + dataframe" where
  "read_csv parse w filename =
     (case files w filename of
        None \<Rightarrow> Inl (FileError filename)
      | Some text \<Rightarrow>
          if filename \<in> unreadable w then Inl (FileError filename) else parse text)"

text \<open>\<^verbatim>\<open>open(output, 'w')\<close>: creates the file or truncates it, or raises.\<close>

definition open_write :: "string \<Rightarrow> world \<Rightarrow> error + (file_object \<times> world)" where
  "open_write output w =
     (if output \<in> unwritable w then Inl (FileError output)
      else Inr (\<lparr>path = output, written = []\<rparr>,
                w\<lparr>files := (files w)(output \<mapsto> []), opened := output # opened w\<rparr>))"

definition write_str :: "string \<Rightarrow> file_object \<Rightarrow> file_object" where
  "write_str s f = f\<lparr>written := written f @ [s]\<rparr>"

text \<open>Closing flushes everything written and releases the file object.\<close>

definition close :: "file_object \<Rightarrow> world \<Rightarrow> world" where
  "close f w =
     w\<lparr>files := (files w)(path f \<mapsto>
          (case files w (path f) of None \<Rightarrow> [] | Some old \<Rightarrow> old) @ concat (written f)),
       opened := remove1 (path f) (opened w)\<rparr>"

subsection \<open>The conversion\<close>

text \<open>
  The body of the \<^verbatim>\<open>for\<close> loop (source lines 32 to 38). An f-string is evaluated
  before it is written, so a \<^verbatim>\<open>KeyError\<close> leaves the file object as the previous
  write left it. The new value of \<^verbatim>\<open>separator\<close> is the same in every iteration and
  is passed on by \<open>rows_loop\<close>.
\<close>

definition write_row ::
  "string \<Rightarrow> nat \<Rightarrow> series \<Rightarrow> file_object \<Rightarrow> error option \<times> file_object" where
  "write_row separator index row f0 =
     (let f1 = write_str separator f0;
          f2 = write_str ''[[Question:TextEntry:Essay]]\<newline>'' f1;
          f3 = write_str (''[[ID:GOV'' @ decimal index @ '']]\<newline>'') f2
      in (case getitem row ''topic'' of
            Inl e \<Rightarrow> (Some e, f3)
          | Inr topic \<Rightarrow>
              (let f4 = write_str (''<h4><strong>Topic:</strong> '' @ py_str topic
                                   @ ''</h4>\<newline><br/>\<newline>'') f3
               in (case getitem row ''opinion'' of
                     Inl e \<Rightarrow> (Some e, f4)
                   | Inr opinion \<Rightarrow>
                       (let f5 = write_str (''<h3><strong>Opinion:</strong> ''
                                            @ py_str opinion
                                            @ ''</h3>\<newline><br/>\<newline>'') f4
                        in (case getitem row ''comment'' of
                              Inl e \<Rightarrow> (Some e, f5)
                            | Inr comment \<Rightarrow>
                                (None, write_str (''<p><strong>&ldquo;''
                                                  @ py_str comment
                                                  @ ''&rdquo;</strong></p>'') f5)))))))"

fun rows_loop ::
  "string \<Rightarrow> (nat \<times> series) list \<Rightarrow> file_object \<Rightarrow> error option \<times> file_object" where
  "rows_loop separator [] f = (None, f)"
| "rows_loop separator ((index, row) # rest) f =
     (case write_row separator index row f of
        (Some e, f') \<Rightarrow> (Some e, f')
      | (None, f') \<Rightarrow> rows_loop ''\<newline>\<newline>'' rest f')"

text \<open>The body of the \<^verbatim>\<open>with\<close> statement (source lines 28 to 38).\<close>

definition survey_body :: "dataframe \<Rightarrow> file_object \<Rightarrow> error option \<times> file_object" where
  "survey_body props f0 =
     (let f1 = write_str ''[[AdvancedFormat]]\<newline>\<newline>'' f0;
          f2 = write_str ''[[Block:GOVBlock]]\<newline>\<newline>'' f1
      in rows_loop [] (iterrows props) f2)"

text \<open>
  \<^verbatim>\<open>_create_survey\<close>. The table is read first. The \<^verbatim>\<open>with\<close> statement closes the
  file object when its body ends, whether it ends normally or by an exception, and the
  exception then propagates.
\<close>

definition create_survey ::
  "parser \<Rightarrow> string \<Rightarrow> string \<Rightarrow> world \<Rightarrow> error option \<times> world" where
  "create_survey parse filename output w =
     (case read_csv parse w filename of
        Inl e \<Rightarrow> (Some e, w)
      | Inr props \<Rightarrow>
          (case open_write output w of
             Inl e \<Rightarrow> (Some e, w)
           | Inr (output_file, w1) \<Rightarrow>
               (case survey_body props output_file of
                  (r, output_file') \<Rightarrow> (r, close output_file' w1))))"

subsection \<open>The command line\<close>


















subsection \<open>Tables the claims speak about\<close>

text \<open>
  Every row of a DataFrame has one cell per column. A valid input table also has the
  three columns the conversion reads.
\<close>

definition well_formed :: "dataframe \<Rightarrow> bool" where
  "well_formed props = list_all (\<lambda>r. length r = length (columns props)) (rows props)"

definition required :: "string list" where
  "required = [''topic'', ''opinion'', ''comment'']"

definition valid_table :: "dataframe \<Rightarrow> bool" where
  "valid_table props = (well_formed props \<and> list_all (\<lambda>c. c \<in> set (columns props)) required)"

text \<open>The three cells the conversion reads from a row, when all are there.\<close>

definition required_cells :: "series \<Rightarrow> (cell \<times> cell \<times> cell) option" where
  "required_cells row =
     (case row ''topic'' of None \<Rightarrow> None | Some t \<Rightarrow>
        (case row ''opinion'' of None \<Rightarrow> None | Some p \<Rightarrow>
           (case row ''comment'' of None \<Rightarrow> None | Some c \<Rightarrow> Some (t, p, c))))"

text \<open>
  The strings one iteration passes to \<^verbatim>\<open>write\<close> when no lookup fails, and those of
  a whole run of the loop: six per row.
\<close>

definition row_chunks :: "string \<Rightarrow> nat \<Rightarrow> cell \<Rightarrow> cell \<Rightarrow> cell \<Rightarrow> string list" where
  "row_chunks separator index t p c =
     [separator,
      ''[[Question:TextEntry:Essay]]\<newline>'',
      ''[[ID:GOV'' @ decimal index @ '']]\<newline>'',
      ''<h4><strong>Topic:</strong> '' @ py_str t @ ''</h4>\<newline><br/>\<newline>'',
      ''<h3><strong>Opinion:</strong> '' @ py_str p @ ''</h3>\<newline><br/>\<newline>'',
      ''<p><strong>&ldquo;'' @ py_str c @ ''&rdquo;</strong></p>'']"

fun loop_chunks :: "string \<Rightarrow> (nat \<times> cell \<times> cell \<times> cell) list \<Rightarrow> string list" where
  "loop_chunks separator [] = []"
| "loop_chunks separator ((index, t, p, c) # rest) =
     row_chunks separator index t p c @ loop_chunks ''\<newline>\<newline>'' rest"

subsection \<open>The document as the specification words it\<close>

text \<open>
  These definitions follow the specification, section 4.1, steps 3 to 5, and not the
  code: the preamble, the block of the row at index \<open>i\<close>, and blocks joined by one
  blank line, with none before the first block and none after the last.
\<close>

definition spec_preamble :: string where
  "spec_preamble = ''[[AdvancedFormat]]\<newline>\<newline>[[Block:GOVBlock]]\<newline>\<newline>''"

definition spec_block :: "nat \<Rightarrow> cell \<Rightarrow> cell \<Rightarrow> cell \<Rightarrow> string" where
  "spec_block i t p c =
     ''[[Question:TextEntry:Essay]]\<newline>''
     @ ''[[ID:GOV'' @ decimal i @ '']]\<newline>''
     @ ''<h4><strong>Topic:</strong> '' @ py_str t @ ''</h4>\<newline>''
     @ ''<br/>\<newline>''
     @ ''<h3><strong>Opinion:</strong> '' @ py_str p @ ''</h3>\<newline>''
     @ ''<br/>\<newline>''
     @ ''<p><strong>&ldquo;'' @ py_str c @ ''&rdquo;</strong></p>''"

fun spec_join :: "string list \<Rightarrow> string" where
  "spec_join [] = []"
| "spec_join [b] = b"
| "spec_join (b # bs) = b @ ''\<newline>\<newline>'' @ spec_join bs"

text \<open>The value of a string of decimal digits, to read an identifier back.\<close>

definition decimal_value :: "string \<Rightarrow> nat" where
  "decimal_value ds = foldl (\<lambda>acc d. 10 * acc + (of_char d - 48)) 0 ds"

subsection \<open>Concrete inputs\<close>

text \<open>A parser that is known on one text only: it reads \<open>text\<close> as \<open>props\<close>.\<close>

definition parses_as :: "string \<Rightarrow> dataframe \<Rightarrow> parser" where
  "parses_as text props t = (if t = text then Inr props else Inl (ParseError t))"

definition disk :: "string \<Rightarrow> world" where
  "disk text = \<lparr>files = [''in.csv'' \<mapsto> text], unreadable = {}, unwritable = {},
               opened = []\<rparr>"

text \<open>The two rows of the example in the specification, section 8.\<close>

definition example_text :: string where
  "example_text =
     ''topic,opinion,comment\<newline>Climate,Pro,It's real\<newline>Tax,Con,Too high\<newline>''"

definition example_table :: dataframe where
  "example_table =
     \<lparr>columns = [''topic'', ''opinion'', ''comment''],
      rows = [[CStr ''Climate'', CStr ''Pro'', CStr ''It's real''],
              [CStr ''Tax'', CStr ''Con'', CStr ''Too high'']]\<rparr>"

text \<open>A table without the topic column.\<close>

definition no_topic_text :: string where
  "no_topic_text = ''opinion,comment\<newline>Pro,It's real\<newline>''"

definition no_topic_table :: dataframe where
  "no_topic_table =
     \<lparr>columns = [''opinion'', ''comment''], rows = [[CStr ''Pro'', CStr ''It's real'']]\<rparr>"

text \<open>A table with a header and no data row.\<close>

definition header_text :: string where
  "header_text = ''topic,opinion,comment\<newline>''"

definition header_table :: dataframe where
  "header_table = \<lparr>columns = [''topic'', ''opinion'', ''comment''], rows = []\<rparr>"

text \<open>Tables without the opinion column and without the comment column.\<close>

definition no_opinion_text :: string where
  "no_opinion_text = ''topic,comment\<newline>Climate,It's real\<newline>Tax,Too high\<newline>''"

definition no_opinion_table :: dataframe where
  "no_opinion_table =
     \<lparr>columns = [''topic'', ''comment''],
      rows = [[CStr ''Climate'', CStr ''It's real''], [CStr ''Tax'', CStr ''Too high'']]\<rparr>"

definition no_comment_text :: string where
  "no_comment_text = ''topic,opinion\<newline>Climate,Pro\<newline>''"

definition no_comment_table :: dataframe where
  "no_comment_table =
     \<lparr>columns = [''topic'', ''opinion''], rows = [[CStr ''Climate'', CStr ''Pro'']]\<rparr>"

text \<open>A header without the topic column and no data row.\<close>

definition bare_header_text :: string where
  "bare_header_text = ''opinion,comment\<newline>''"

definition bare_header_table :: dataframe where
  "bare_header_table = \<lparr>columns = [''opinion'', ''comment''], rows = []\<rparr>"

subsection \<open>Missing values in the parser of the library\<close>

text \<open>
  \<^verbatim>\<open>pd.read_csv\<close> is called on line 25 with its defaults, so the fields that the
  library documents as markers of a missing value are read as NaN. The list holds the
  markers common to the versions of the library; the empty field is the first.
\<close>

definition na_values :: "string list" where
  "na_values =
     [[], ''#N/A'', ''#N/A N/A'', ''#NA'', ''-1.#IND'', ''-1.#QNAN'', ''-NaN'', ''-nan'',
      ''1.#IND'', ''1.#QNAN'', ''<NA>'', ''N/A'', ''NA'', ''NULL'', ''NaN'', ''n/a'',
      ''nan'', ''null'']"

text \<open>
  The rest of the parser stays a parameter, in two parts. The tokenizer splits the
  text into the column names and the rows of fields, and deals with quotes and line
  ends. The inference gives the value of a field that is not a marker; it may look at
  the whole table, since the library types a column by all its fields and a row by all
  its columns.
\<close>

type_synonym tokenizer = "string \<Rightarrow> error + (string list \<times> string list list)"

type_synonym inference = "string list \<Rightarrow> string list list \<Rightarrow> string \<Rightarrow> string \<Rightarrow> cell"

definition to_cell ::
  "inference \<Rightarrow> string list \<Rightarrow> string list list \<Rightarrow> string \<Rightarrow> string \<Rightarrow> cell" where
  "to_cell infer names table name field =
     (if field \<in> set na_values then CNaN else infer names table name field)"

definition frame :: "inference \<Rightarrow> string list \<Rightarrow> string list list \<Rightarrow> dataframe" where
  "frame infer names table =
     \<lparr>columns = names,
      rows = map (\<lambda>r. map (\<lambda>(name, field). to_cell infer names table name field)
                         (zip names r)) table\<rparr>"

definition pandas_parse :: "tokenizer \<Rightarrow> inference \<Rightarrow> parser" where
  "pandas_parse tokenize infer text =
     (case tokenize text of
        Inl e \<Rightarrow> Inl e
      | Inr (names, table) \<Rightarrow> Inr (frame infer names table))"

text \<open>
  For concrete inputs: the tokenizer on a text without quotes whose lines end in a
  newline (lines are split at newlines, empty lines are skipped, fields are split at
  commas), and the inference on a table none of whose columns holds only numbers or
  only Booleans, where a field that is not a marker stays text.
\<close>

fun split_on :: "char \<Rightarrow> string \<Rightarrow> string list" where
  "split_on d [] = [[]]"
| "split_on d (c # cs) =
     (if c = d then [] # split_on d cs
      else (case split_on d cs of [] \<Rightarrow> [[c]] | p # ps \<Rightarrow> (c # p) # ps))"

definition plain_csv :: tokenizer where
  "plain_csv text =
     (case filter (\<lambda>l. l \<noteq> []) (split_on (CHR 0x0A) text) of
        [] \<Rightarrow> Inl (ParseError ''No columns to parse from file'')
      | h # ls \<Rightarrow> Inr (split_on (CHR '','') h, map (split_on (CHR '','')) ls))"

definition keep_text :: inference where
  "keep_text names table name field = CStr field"

text \<open>A text whose topic is a marker, and one whose second row has three empty fields.\<close>

definition na_text :: string where
  "na_text = ''topic,opinion,comment\<newline>NA,Pro,Fine\<newline>''"

definition gaps_text :: string where
  "gaps_text = ''topic,opinion,comment\<newline>Tax,Con,Too high\<newline>,,\<newline>''"

section \<open>Lemmas about the model\<close>

subsection \<open>File objects\<close>

lemma path_write_str [simp]: "path (write_str s f) = path f"
  by (simp add: write_str_def)

lemma written_write_str [simp]: "written (write_str s f) = written f @ [s]"
  by (simp add: write_str_def)

lemma path_write_row: "path (snd (write_row separator index row f)) = path f"
  by (simp add: write_row_def getitem_def Let_def split: option.splits)

lemma path_rows_loop: "path (snd (rows_loop separator irs f)) = path f"
proof (induction irs arbitrary: separator f)
  case Nil
  then show ?case by simp
next
  case (Cons ir irs)
  obtain index row where ir: "ir = (index, row)" by (cases ir)
  obtain r f' where wr: "write_row separator index row f = (r, f')"
    by (cases "write_row separator index row f")
  have p: "path f' = path f" using path_write_row [of separator index row f] wr by simp
  show ?case
    using Cons.IH [of "''\<newline>\<newline>''" f'] wr p by (cases r) (simp_all add: ir)
qed

lemma path_survey_body: "path (snd (survey_body props f)) = path f"
  by (simp add: survey_body_def Let_def path_rows_loop)

text \<open>
  What a call that gets as far as opening the output leaves behind: the result of the
  body, and a file system changed at the output path only, which holds everything the
  body wrote. The file object is no longer listed as open.
\<close>

lemma create_survey_opened:
  assumes "read_csv parse w filename = Inr props" "output \<notin> unwritable w"
  shows "create_survey parse filename output w =
           (fst (survey_body props \<lparr>path = output, written = []\<rparr>),
            w\<lparr>files := (files w)(output \<mapsto>
                 concat (written (snd (survey_body props \<lparr>path = output, written = []\<rparr>))))\<rparr>)"
proof -
  obtain r f' where sb: "survey_body props \<lparr>path = output, written = []\<rparr> = (r, f')"
    by (cases "survey_body props \<lparr>path = output, written = []\<rparr>")
  have p: "path f' = output"
    using path_survey_body [of props "\<lparr>path = output, written = []\<rparr>"] sb by simp
  show ?thesis
    using assms by (simp add: create_survey_def open_write_def sb close_def p)
qed

subsection \<open>Rows whose three cells are present\<close>

lemma write_row_fields:
  assumes "required_cells row = Some (t, p, c)"
  shows "write_row separator index row f =
           (None, f\<lparr>written := written f @ row_chunks separator index t p c\<rparr>)"
  using assms
  by (simp add: write_row_def required_cells_def getitem_def write_str_def row_chunks_def
           split: option.splits)

lemma rows_loop_chunks:
  assumes "list_all2 (\<lambda>(i, row) (j, tpc). i = j \<and> required_cells row = Some tpc) irs its"
  shows "rows_loop separator irs f =
           (None, f\<lparr>written := written f @ loop_chunks separator its\<rparr>)"
  using assms
proof (induction irs its arbitrary: separator f rule: list_all2_induct)
  case Nil
  then show ?case by simp
next
  case (Cons ir irs it its)
  obtain i row where ir: "ir = (i, row)" by (cases ir)
  obtain t p c where it: "it = (i, t, p, c)" and fs: "required_cells row = Some (t, p, c)"
    using Cons.hyps(1) ir by (cases it) auto
  show ?case
    by (simp add: ir it write_row_fields [OF fs] Cons.IH)
qed

lemma series_of_Some:
  assumes "length r = length (columns props)" "c \<in> set (columns props)"
  shows "\<exists>v. series_of props r c = Some v"
  using assms unfolding series_of_def
  by (metis map_of_zip_is_Some)

lemma series_of_None:
  assumes "length r = length (columns props)" "c \<notin> set (columns props)"
  shows "series_of props r c = None"
  using assms by (simp add: series_of_def)

lemma valid_fields:
  assumes "valid_table props" "r \<in> set (rows props)"
  shows "\<exists>tpc. required_cells (series_of props r) = Some tpc"
proof -
  have len: "length r = length (columns props)"
    using assms by (simp add: valid_table_def well_formed_def list_all_iff)
  have cols: "''topic'' \<in> set (columns props)" "''opinion'' \<in> set (columns props)"
    "''comment'' \<in> set (columns props)"
    using assms(1) by (simp_all add: valid_table_def required_def)
  from series_of_Some [OF len cols(1)] series_of_Some [OF len cols(2)]
    series_of_Some [OF len cols(3)]
  show ?thesis by (auto simp: required_cells_def)
qed

lemma iterrows_valid:
  assumes "valid_table props"
  shows "\<exists>tpcs. length tpcs = length (rows props)
           \<and> (\<forall>k < length (rows props).
                 required_cells (series_of props (rows props ! k)) = Some (tpcs ! k))
           \<and> list_all2 (\<lambda>(i, row) (j, tpc). i = j \<and> required_cells row = Some tpc)
                (iterrows props) (enumerate 0 tpcs)"
proof -
  define tpcs where "tpcs = map (\<lambda>r. the (required_cells (series_of props r))) (rows props)"
  have len: "length tpcs = length (rows props)" by (simp add: tpcs_def)
  have nth: "required_cells (series_of props (rows props ! k)) = Some (tpcs ! k)"
    if "k < length (rows props)" for k
  proof -
    have "rows props ! k \<in> set (rows props)" using that by simp
    from valid_fields [OF assms this] show ?thesis
      using that by (auto simp: tpcs_def)
  qed
  have "list_all2 (\<lambda>(i, row) (j, tpc). i = j \<and> required_cells row = Some tpc)
          (iterrows props) (enumerate 0 tpcs)"
    unfolding list_all2_conv_all_nth
    using nth len by (simp add: iterrows_def nth_enumerate_eq)
  with len nth show ?thesis by blast
qed

lemma survey_body_valid:
  assumes "list_all2 (\<lambda>(i, row) (j, tpc). i = j \<and> required_cells row = Some tpc)
             (iterrows props) its"
  shows "survey_body props f =
           (None, f\<lparr>written := written f
              @ [''[[AdvancedFormat]]\<newline>\<newline>'', ''[[Block:GOVBlock]]\<newline>\<newline>'']
              @ loop_chunks [] its\<rparr>)"
  by (simp add: survey_body_def Let_def rows_loop_chunks [OF assms] write_str_def)

subsection \<open>The strings written, one by one and joined\<close>

lemma concat_row_chunks:
  "concat (row_chunks separator i t p c) = separator @ spec_block i t p c"
  by (simp add: row_chunks_def spec_block_def)

lemma concat_loop_chunks:
  "concat (loop_chunks separator its) =
     (if its = [] then []
      else separator @ spec_join (map (\<lambda>(i, t, p, c). spec_block i t p c) its))"
proof (induction its arbitrary: separator)
  case Nil
  then show ?case by simp
next
  case (Cons it its)
  obtain i t p c where it: "it = (i, t, p, c)" by (cases it)
  show ?case
  proof (cases its)
    case Nil
    then show ?thesis by (simp add: it concat_row_chunks)
  next
    case (Cons a list)
    then show ?thesis
      using Cons.IH [of "''\<newline>\<newline>''"] by (simp add: it concat_row_chunks)
  qed
qed

lemma length_loop_chunks: "length (loop_chunks separator its) = 6 * length its"
  by (induction separator its rule: loop_chunks.induct) (simp_all add: row_chunks_def)

lemma nth_loop_chunks:
  assumes "k < length its" "j < 6" "its ! k = (i, t, p, c)"
  shows "loop_chunks separator its ! (6 * k + j) =
           row_chunks (if k = 0 then separator else ''\<newline>\<newline>'') i t p c ! j"
  using assms
proof (induction its arbitrary: k separator)
  case Nil
  then show ?case by simp
next
  case (Cons it its)
  obtain i' t' p' c' where it: "it = (i', t', p', c')" by (cases it)
  have len: "length (row_chunks s a b d e) = 6" for s a b d e by (simp add: row_chunks_def)
  show ?case
  proof (cases k)
    case 0
    with Cons.prems show ?thesis by (simp add: it nth_append len)
  next
    case (Suc k')
    have "6 * k + j = 6 + (6 * k' + j)" using Suc by simp
    moreover have "loop_chunks ''\<newline>\<newline>'' its ! (6 * k' + j) =
        row_chunks ''\<newline>\<newline>'' i t p c ! j"
      using Cons.IH [of k' "''\<newline>\<newline>''"] Cons.prems Suc by simp
    ultimately show ?thesis
      using Suc by (simp add: it nth_append len)
  qed
qed

lemma survey_body_chunks:
  assumes "valid_table props" "k < length (rows props)"
  shows "\<exists>t p c. required_cells (series_of props (rows props ! k)) = Some (t, p, c)
           \<and> fst (survey_body props \<lparr>path = output, written = []\<rparr>) = None
           \<and> length (written (snd (survey_body props \<lparr>path = output, written = []\<rparr>)))
               = 2 + 6 * length (rows props)
           \<and> (\<forall>j < 6. written (snd (survey_body props \<lparr>path = output, written = []\<rparr>))
                          ! (2 + 6 * k + j)
                      = row_chunks (if k = 0 then [] else ''\<newline>\<newline>'') k t p c ! j)"
proof -
  from iterrows_valid [OF assms(1)] obtain tpcs where
    len: "length tpcs = length (rows props)" and
    cells: "\<And>k. k < length (rows props) \<Longrightarrow>
              required_cells (series_of props (rows props ! k)) = Some (tpcs ! k)" and
    all2: "list_all2 (\<lambda>(i, row) (j, tpc). i = j \<and> required_cells row = Some tpc)
             (iterrows props) (enumerate 0 tpcs)"
    by blast
  obtain t p c where tpc: "tpcs ! k = (t, p, c)" by (cases "tpcs ! k")
  have kth: "enumerate 0 tpcs ! k = (k, t, p, c)"
    using assms(2) len tpc by (simp add: nth_enumerate_eq)
  have nth: "loop_chunks [] (enumerate 0 tpcs) ! (6 * k + j) =
          row_chunks (if k = 0 then [] else ''\<newline>\<newline>'') k t p c ! j" if "j < 6" for j
    by (rule nth_loop_chunks) (use assms(2) len kth that in simp_all)
  have "required_cells (series_of props (rows props ! k)) = Some (t, p, c)"
    using cells [OF assms(2)] tpc by simp
  moreover have "\<forall>j < 6. written (snd (survey_body props \<lparr>path = output, written = []\<rparr>))
                          ! (2 + 6 * k + j)
                      = row_chunks (if k = 0 then [] else ''\<newline>\<newline>'') k t p c ! j"
    using nth by (simp add: survey_body_valid [OF all2])
  ultimately show ?thesis
    by (simp add: survey_body_valid [OF all2] length_loop_chunks len)
qed

subsection \<open>Decimal digits\<close>

lemma digit_chars: "char_of (48::nat) = CHR ''0''" "char_of (49::nat) = CHR ''1''"
  by (simp_all add: char_of_def bit_iff_odd)

lemma decimal_0: "decimal 0 = ''0''"
  by (simp add: decimal.simps char_of_def bit_iff_odd)

lemma of_char_digit: "m < 10 \<Longrightarrow> of_char (char_of (48 + m)) = (48 + m :: nat)"
  by simp

lemma decimal_value_snoc:
  "decimal_value (ds @ [d]) = 10 * decimal_value ds + (of_char d - 48)"
  by (simp add: decimal_value_def)

lemma decimal_value_decimal: "decimal_value (decimal n) = n"
proof (induction n rule: decimal.induct)
  case (1 n)
  show ?case
  proof (cases "n < 10")
    case True
    then show ?thesis
      by (subst decimal.simps) (simp add: decimal_value_def)
  next
    case False
    have "decimal n = decimal (n div 10) @ [char_of (48 + n mod 10)]"
      using False by (subst decimal.simps) simp
    then show ?thesis
      using "1.IH" False by (simp add: decimal_value_snoc of_char_digit)
  qed
qed

subsection \<open>A row of a table without a required column\<close>

lemma write_row_no_topic:
  assumes "length r = length (columns props)" "''topic'' \<notin> set (columns props)"
  shows "write_row separator index (series_of props r) f =
           (Some (KeyError ''topic''),
            f\<lparr>written := written f
               @ [separator, ''[[Question:TextEntry:Essay]]\<newline>'',
                  ''[[ID:GOV'' @ decimal index @ '']]\<newline>'']\<rparr>)"
  by (simp add: write_row_def getitem_def write_str_def series_of_None [OF assms])

lemma write_row_no_opinion:
  assumes "length r = length (columns props)" "series_of props r ''topic'' = Some t"
    "''opinion'' \<notin> set (columns props)"
  shows "write_row separator index (series_of props r) f =
           (Some (KeyError ''opinion''),
            f\<lparr>written := written f
               @ [separator, ''[[Question:TextEntry:Essay]]\<newline>'',
                  ''[[ID:GOV'' @ decimal index @ '']]\<newline>'',
                  ''<h4><strong>Topic:</strong> '' @ py_str t
                    @ ''</h4>\<newline><br/>\<newline>'']\<rparr>)"
  by (simp add: write_row_def getitem_def write_str_def assms(2)
        series_of_None [OF assms(1,3)])

lemma write_row_no_comment:
  assumes "length r = length (columns props)" "series_of props r ''topic'' = Some t"
    "series_of props r ''opinion'' = Some p" "''comment'' \<notin> set (columns props)"
  shows "write_row separator index (series_of props r) f =
           (Some (KeyError ''comment''),
            f\<lparr>written := written f
               @ [separator, ''[[Question:TextEntry:Essay]]\<newline>'',
                  ''[[ID:GOV'' @ decimal index @ '']]\<newline>'',
                  ''<h4><strong>Topic:</strong> '' @ py_str t
                    @ ''</h4>\<newline><br/>\<newline>'',
                  ''<h3><strong>Opinion:</strong> '' @ py_str p
                    @ ''</h3>\<newline><br/>\<newline>'']\<rparr>)"
  by (simp add: write_row_def getitem_def write_str_def assms(2,3)
        series_of_None [OF assms(1,4)])

lemma create_survey_first_row_fails:
  assumes "read_csv parse w filename = Inr props" "output \<notin> unwritable w"
    "rows props = r # rs"
    "write_row [] 0 (series_of props r)
       \<lparr>path = output, written =
          [''[[AdvancedFormat]]\<newline>\<newline>'', ''[[Block:GOVBlock]]\<newline>\<newline>'']\<rparr>
     = (Some e, \<lparr>path = output, written =
          [''[[AdvancedFormat]]\<newline>\<newline>'', ''[[Block:GOVBlock]]\<newline>\<newline>'']
          @ [[], ''[[Question:TextEntry:Essay]]\<newline>'', ''[[ID:GOV'' @ decimal 0 @ '']]\<newline>'']
          @ others\<rparr>)"
  shows "create_survey parse filename output w =
           (Some e, w\<lparr>files := (files w)(output \<mapsto>
              spec_preamble @ ''[[Question:TextEntry:Essay]]\<newline>[[ID:GOV0]]\<newline>''
              @ concat others)\<rparr>)"
proof -
  have "survey_body props \<lparr>path = output, written = []\<rparr> =
      (Some e, \<lparr>path = output, written =
          [''[[AdvancedFormat]]\<newline>\<newline>'', ''[[Block:GOVBlock]]\<newline>\<newline>'']
          @ [[], ''[[Question:TextEntry:Essay]]\<newline>'', ''[[ID:GOV'' @ decimal 0 @ '']]\<newline>'']
          @ others\<rparr>)"
    using assms(4) by (simp add: survey_body_def iterrows_def assms(3) write_str_def)
  then show ?thesis
    by (simp add: create_survey_opened [OF assms(1,2)] spec_preamble_def decimal_0)
qed

subsection \<open>Missing values\<close>

lemma survey_body_nan:
  assumes "valid_table props" "k < length (rows props)"
  shows "fst (survey_body props \<lparr>path = output, written = []\<rparr>) = None
         \<and> (series_of props (rows props ! k) ''topic'' = Some CNaN \<longrightarrow>
              written (snd (survey_body props \<lparr>path = output, written = []\<rparr>)) ! (2 + 6 * k + 3)
                = ''<h4><strong>Topic:</strong> nan</h4>\<newline><br/>\<newline>'')
         \<and> (series_of props (rows props ! k) ''opinion'' = Some CNaN \<longrightarrow>
              written (snd (survey_body props \<lparr>path = output, written = []\<rparr>)) ! (2 + 6 * k + 4)
                = ''<h3><strong>Opinion:</strong> nan</h3>\<newline><br/>\<newline>'')
         \<and> (series_of props (rows props ! k) ''comment'' = Some CNaN \<longrightarrow>
              written (snd (survey_body props \<lparr>path = output, written = []\<rparr>)) ! (2 + 6 * k + 5)
                = ''<p><strong>&ldquo;nan&rdquo;</strong></p>'')"
proof -
  from survey_body_chunks [OF assms(1,2), of "output"] obtain t' p' c' where
    rc: "required_cells (series_of props (rows props ! k)) = Some (t', p', c')" and
    ok: "fst (survey_body props \<lparr>path = output, written = []\<rparr>) = None" and
    nth: "\<And>j. j < 6 \<Longrightarrow>
            written (snd (survey_body props \<lparr>path = output, written = []\<rparr>)) ! (2 + 6 * k + j)
              = row_chunks (if k = 0 then [] else ''\<newline>\<newline>'') k t' p' c' ! j"
    by blast
  have eq: "series_of props (rows props ! k) ''topic'' = Some t'"
    "series_of props (rows props ! k) ''opinion'' = Some p'"
    "series_of props (rows props ! k) ''comment'' = Some c'"
    using rc by (simp_all add: required_cells_def split: option.splits)
  show ?thesis
    using nth [of 3] nth [of 4] nth [of 5] ok by (auto simp: eq row_chunks_def)
qed

lemma map_of_zip_map:
  "map_of (zip xs (map (\<lambda>(x, y). h x y) (zip xs ys))) c
     = map_option (h c) (map_of (zip xs ys) c)"
proof (induction xs arbitrary: ys)
  case Nil
  then show ?case by simp
next
  case (Cons x xs)
  then show ?case by (cases ys) auto
qed

lemma series_of_frame:
  assumes "k < length table"
  shows "series_of (frame infer names table) (rows (frame infer names table) ! k) c
           = map_option (to_cell infer names table c) (map_of (zip names (table ! k)) c)"
  using assms by (simp add: series_of_def frame_def map_of_zip_map)

lemma valid_frame:
  assumes "list_all (\<lambda>r. length r = length names) table"
    "list_all (\<lambda>c. c \<in> set names) required"
  shows "valid_table (frame infer names table)"
  using assms by (simp add: valid_table_def well_formed_def frame_def list_all_iff)

lemma to_cell_empty: "to_cell infer names table name [] = CNaN"
  by (simp add: to_cell_def na_values_def)

subsection \<open>Reading the command line\<close>








section \<open>The claims\<close>

text \<open>
  Claim C1. For every valid input table with \<open>n\<close> data rows, the conversion writes
  exactly \<open>n\<close> rendered blocks in input order after the preamble, block \<open>k\<close> being the
  block of the specification for index \<open>k\<close> and the three cells of row \<open>k\<close>, with one
  separator of two newline characters between consecutive blocks, none before the first
  and none after the last. The loop of the code, which threads the variable
  \<^verbatim>\<open>separator\<close>, is compared with \<open>spec_join\<close>.
\<close>

theorem C1_one_block_per_row:
  assumes "read_csv parse w filename = Inr props" "valid_table props"
    "output \<notin> unwritable w"
  shows "\<exists>blocks. length blocks = length (rows props)
           \<and> (\<forall>k < length (rows props). \<exists>t p c.
                 required_cells (series_of props (rows props ! k)) = Some (t, p, c)
                 \<and> blocks ! k = spec_block k t p c)
           \<and> create_survey parse filename output w =
               (None, w\<lparr>files := (files w)(output \<mapsto> spec_preamble @ spec_join blocks)\<rparr>)"
proof -
  from iterrows_valid [OF assms(2)] obtain tpcs where
    len: "length tpcs = length (rows props)" and
    cells: "\<And>k. k < length (rows props) \<Longrightarrow>
              required_cells (series_of props (rows props ! k)) = Some (tpcs ! k)" and
    all2: "list_all2 (\<lambda>(i, row) (j, tpc). i = j \<and> required_cells row = Some tpc)
             (iterrows props) (enumerate 0 tpcs)"
    by blast
  define blocks where
    "blocks = map (\<lambda>(i, t, p, c). spec_block i t p c) (enumerate 0 tpcs)"
  have 1: "length blocks = length (rows props)" by (simp add: blocks_def len)
  have 2: "\<exists>t p c. required_cells (series_of props (rows props ! k)) = Some (t, p, c)
             \<and> blocks ! k = spec_block k t p c" if "k < length (rows props)" for k
  proof -
    obtain t p c where tpc: "tpcs ! k = (t, p, c)" by (cases "tpcs ! k")
    have "blocks ! k = spec_block k t p c"
      using that len tpc by (simp add: blocks_def nth_enumerate_eq)
    with cells [OF that] tpc show ?thesis by simp
  qed
  have "concat (loop_chunks [] (enumerate 0 tpcs)) = spec_join blocks"
    by (simp add: concat_loop_chunks blocks_def enumerate_eq_zip)
  then have 3: "create_survey parse filename output w =
      (None, w\<lparr>files := (files w)(output \<mapsto> spec_preamble @ spec_join blocks)\<rparr>)"
    by (simp add: create_survey_opened [OF assms(1,3)] survey_body_valid [OF all2]
          spec_preamble_def)
  from 1 2 3 show ?thesis by blast
qed

theorem C1_one_block_per_row_witness:
  "read_csv (parses_as example_text example_table) (disk example_text) ''in.csv''
     = Inr example_table
   \<and> valid_table example_table
   \<and> ''out.txt'' \<notin> unwritable (disk example_text)
   \<and> (\<exists>blocks. length blocks = length (rows example_table)
         \<and> (\<forall>k < length (rows example_table). \<exists>t p c.
               required_cells (series_of example_table (rows example_table ! k))
                 = Some (t, p, c)
               \<and> blocks ! k = spec_block k t p c)
         \<and> create_survey (parses_as example_text example_table) ''in.csv'' ''out.txt''
               (disk example_text) =
             (None, (disk example_text)\<lparr>files := (files (disk example_text))
                (''out.txt'' \<mapsto> spec_preamble @ spec_join blocks)\<rparr>))"
proof -
  have h1: "read_csv (parses_as example_text example_table) (disk example_text) ''in.csv''
     = Inr example_table"
    by (simp add: read_csv_def parses_as_def disk_def)
  have h2: "valid_table example_table"
    by (simp add: valid_table_def well_formed_def example_table_def required_def)
  have h3: "''out.txt'' \<notin> unwritable (disk example_text)"
    by (simp add: disk_def)
  from C1_one_block_per_row [OF h1 h2 h3] h1 h2 h3 show ?thesis by blast
qed

text \<open>
  Claim C2. For every valid input table and every row at zero-based position \<open>k\<close>, the
  identifier line written for that row, the third string the iteration for the row
  writes, is exactly \<^verbatim>\<open>[[ID:GOVk]]\<close> followed by a newline, with \<open>k\<close> in decimal:
  the digits read back as \<open>k\<close>. The line is a function of \<open>k\<close> alone, so it does not
  depend on the topic, opinion or comment of the row. The strings are those given to
  the file object opened on the output path, two for the preamble and six per row.
\<close>

theorem C2_identifier_by_position:
  assumes "valid_table props" "k < length (rows props)"
  shows "fst (survey_body props \<lparr>path = output, written = []\<rparr>) = None
         \<and> length (written (snd (survey_body props \<lparr>path = output, written = []\<rparr>)))
             = 2 + 6 * length (rows props)
         \<and> written (snd (survey_body props \<lparr>path = output, written = []\<rparr>)) ! (2 + 6 * k + 2)
             = ''[[ID:GOV'' @ decimal k @ '']]\<newline>''
         \<and> decimal_value (decimal k) = k"
proof -
  from iterrows_valid [OF assms(1)] obtain tpcs where
    len: "length tpcs = length (rows props)" and
    all2: "list_all2 (\<lambda>(i, row) (j, tpc). i = j \<and> required_cells row = Some tpc)
             (iterrows props) (enumerate 0 tpcs)"
    by blast
  obtain t p c where tpc: "tpcs ! k = (t, p, c)" by (cases "tpcs ! k")
  have kth: "enumerate 0 tpcs ! k = (k, t, p, c)"
    using assms(2) len tpc by (simp add: nth_enumerate_eq)
  have "loop_chunks [] (enumerate 0 tpcs) ! (6 * k + 2) =
          row_chunks (if k = 0 then [] else ''\<newline>\<newline>'') k t p c ! 2"
    by (rule nth_loop_chunks) (use assms(2) len kth in simp_all)
  then have "loop_chunks [] (enumerate 0 tpcs) ! (6 * k + 2)
               = ''[[ID:GOV'' @ decimal k @ '']]\<newline>''"
    by (simp add: row_chunks_def)
  then show ?thesis
    by (simp add: survey_body_valid [OF all2] length_loop_chunks len decimal_value_decimal
          nth_append numeral_2_eq_2)
qed

theorem C2_identifier_by_position_witness:
  "valid_table example_table \<and> (1::nat) < length (rows example_table)
   \<and> fst (survey_body example_table \<lparr>path = ''out.txt'', written = []\<rparr>) = None
   \<and> length (written (snd (survey_body example_table \<lparr>path = ''out.txt'', written = []\<rparr>)))
       = 2 + 6 * length (rows example_table)
   \<and> written (snd (survey_body example_table \<lparr>path = ''out.txt'', written = []\<rparr>))
         ! (2 + 6 * 1 + 2)
       = ''[[ID:GOV'' @ decimal 1 @ '']]\<newline>''
   \<and> decimal_value (decimal 1) = 1"
proof -
  have h1: "valid_table example_table"
    by (simp add: valid_table_def well_formed_def example_table_def required_def)
  have h2: "(1::nat) < length (rows example_table)"
    by (simp add: example_table_def)
  from C2_identifier_by_position [OF h1 h2, of "''out.txt''"] h1 h2 show ?thesis by simp
qed

text \<open>
  Claim C3, as amended. The code does not check the header. For a table whose header
  lacks a required column, the conversion opens the output file and writes the
  preamble. With no data row it then succeeds, and the file holds the preamble only.
  With at least one data row it fails while rendering the first row, with a
  \<^verbatim>\<open>KeyError\<close> that names the first of topic, opinion and comment that the header
  lacks, and the file holds exactly the preamble, the question line and the line
  \<^verbatim>\<open>[[ID:GOV0]]\<close> of the first row, and the field lines of the first row for the
  required columns that come before the missing one; nothing of a later row is
  written.
\<close>

theorem C3_missing_column:
  assumes "read_csv parse w filename = Inr props" "well_formed props"
    "\<not> list_all (\<lambda>c. c \<in> set (columns props)) required"
    "output \<notin> unwritable w"
  shows "(rows props = [] \<longrightarrow>
            create_survey parse filename output w =
              (None, w\<lparr>files := (files w)(output \<mapsto> spec_preamble)\<rparr>))
         \<and> (\<forall>r rs. rows props = r # rs \<longrightarrow>
              (''topic'' \<notin> set (columns props) \<longrightarrow>
                 create_survey parse filename output w =
                   (Some (KeyError ''topic''),
                    w\<lparr>files := (files w)(output \<mapsto>
                         spec_preamble
                         @ ''[[Question:TextEntry:Essay]]\<newline>[[ID:GOV0]]\<newline>'')\<rparr>))
              \<and> (''topic'' \<in> set (columns props) \<and> ''opinion'' \<notin> set (columns props) \<longrightarrow>
                   (\<exists>t. series_of props r ''topic'' = Some t
                      \<and> create_survey parse filename output w =
                          (Some (KeyError ''opinion''),
                           w\<lparr>files := (files w)(output \<mapsto>
                                spec_preamble
                                @ ''[[Question:TextEntry:Essay]]\<newline>[[ID:GOV0]]\<newline>''
                                @ ''<h4><strong>Topic:</strong> '' @ py_str t
                                @ ''</h4>\<newline><br/>\<newline>'')\<rparr>)))
              \<and> (''topic'' \<in> set (columns props) \<and> ''opinion'' \<in> set (columns props) \<longrightarrow>
                   (\<exists>t p. series_of props r ''topic'' = Some t
                      \<and> series_of props r ''opinion'' = Some p
                      \<and> create_survey parse filename output w =
                          (Some (KeyError ''comment''),
                           w\<lparr>files := (files w)(output \<mapsto>
                                spec_preamble
                                @ ''[[Question:TextEntry:Essay]]\<newline>[[ID:GOV0]]\<newline>''
                                @ ''<h4><strong>Topic:</strong> '' @ py_str t
                                @ ''</h4>\<newline><br/>\<newline>''
                                @ ''<h3><strong>Opinion:</strong> '' @ py_str p
                                @ ''</h3>\<newline><br/>\<newline>'')\<rparr>))))"
proof (intro conjI allI impI)
  assume "rows props = []"
  then show "create_survey parse filename output w =
      (None, w\<lparr>files := (files w)(output \<mapsto> spec_preamble)\<rparr>)"
    by (simp add: create_survey_opened [OF assms(1,4)] survey_body_def iterrows_def
          spec_preamble_def write_str_def)
next
  fix r rs
  assume rows: "rows props = r # rs" and topic: "''topic'' \<notin> set (columns props)"
  have len: "length r = length (columns props)"
    using assms(2) rows by (simp add: well_formed_def)
  have "create_survey parse filename output w =
          (Some (KeyError ''topic''), w\<lparr>files := (files w)(output \<mapsto>
              spec_preamble @ ''[[Question:TextEntry:Essay]]\<newline>[[ID:GOV0]]\<newline>''
              @ concat [])\<rparr>)"
    by (rule create_survey_first_row_fails [OF assms(1,4) rows])
       (simp add: write_row_no_topic [OF len topic])
  then show "create_survey parse filename output w =
      (Some (KeyError ''topic''),
       w\<lparr>files := (files w)(output \<mapsto>
            spec_preamble
            @ ''[[Question:TextEntry:Essay]]\<newline>[[ID:GOV0]]\<newline>'')\<rparr>)"
    by simp
next
  fix r rs
  assume rows: "rows props = r # rs"
    and cols: "''topic'' \<in> set (columns props) \<and> ''opinion'' \<notin> set (columns props)"
  have len: "length r = length (columns props)"
    using assms(2) rows by (simp add: well_formed_def)
  from series_of_Some [OF len] cols obtain t where
    t: "series_of props r ''topic'' = Some t" by blast
  have wr: "write_row [] 0 (series_of props r) f =
           (Some (KeyError ''opinion''),
            f\<lparr>written := written f
               @ [[], ''[[Question:TextEntry:Essay]]\<newline>'',
                  ''[[ID:GOV'' @ decimal 0 @ '']]\<newline>'',
                  ''<h4><strong>Topic:</strong> '' @ py_str t
                    @ ''</h4>\<newline><br/>\<newline>'']\<rparr>)" for f
    using cols by (intro write_row_no_opinion [OF len t]) simp
  have "create_survey parse filename output w =
          (Some (KeyError ''opinion''), w\<lparr>files := (files w)(output \<mapsto>
              spec_preamble @ ''[[Question:TextEntry:Essay]]\<newline>[[ID:GOV0]]\<newline>''
              @ concat [''<h4><strong>Topic:</strong> '' @ py_str t
                    @ ''</h4>\<newline><br/>\<newline>''])\<rparr>)"
    by (rule create_survey_first_row_fails [OF assms(1,4) rows]) (simp add: wr)
  with t show "\<exists>t. series_of props r ''topic'' = Some t
      \<and> create_survey parse filename output w =
          (Some (KeyError ''opinion''),
           w\<lparr>files := (files w)(output \<mapsto>
                spec_preamble
                @ ''[[Question:TextEntry:Essay]]\<newline>[[ID:GOV0]]\<newline>''
                @ ''<h4><strong>Topic:</strong> '' @ py_str t
                @ ''</h4>\<newline><br/>\<newline>'')\<rparr>)"
    by simp
next
  fix r rs
  assume rows: "rows props = r # rs"
    and cols: "''topic'' \<in> set (columns props) \<and> ''opinion'' \<in> set (columns props)"
  have len: "length r = length (columns props)"
    using assms(2) rows by (simp add: well_formed_def)
  have comment: "''comment'' \<notin> set (columns props)"
    using assms(3) cols by (simp add: required_def)
  from series_of_Some [OF len] cols obtain t where
    t: "series_of props r ''topic'' = Some t" by blast
  from series_of_Some [OF len] cols obtain p where
    p: "series_of props r ''opinion'' = Some p" by blast
  have wr: "write_row [] 0 (series_of props r) f =
           (Some (KeyError ''comment''),
            f\<lparr>written := written f
               @ [[], ''[[Question:TextEntry:Essay]]\<newline>'',
                  ''[[ID:GOV'' @ decimal 0 @ '']]\<newline>'',
                  ''<h4><strong>Topic:</strong> '' @ py_str t
                    @ ''</h4>\<newline><br/>\<newline>'',
                  ''<h3><strong>Opinion:</strong> '' @ py_str p
                    @ ''</h3>\<newline><br/>\<newline>'']\<rparr>)" for f
    by (rule write_row_no_comment [OF len t p comment])
  have "create_survey parse filename output w =
          (Some (KeyError ''comment''), w\<lparr>files := (files w)(output \<mapsto>
              spec_preamble @ ''[[Question:TextEntry:Essay]]\<newline>[[ID:GOV0]]\<newline>''
              @ concat [''<h4><strong>Topic:</strong> '' @ py_str t
                    @ ''</h4>\<newline><br/>\<newline>'',
                  ''<h3><strong>Opinion:</strong> '' @ py_str p
                    @ ''</h3>\<newline><br/>\<newline>''])\<rparr>)"
    by (rule create_survey_first_row_fails [OF assms(1,4) rows]) (simp add: wr)
  with t p show "\<exists>t p. series_of props r ''topic'' = Some t
      \<and> series_of props r ''opinion'' = Some p
      \<and> create_survey parse filename output w =
          (Some (KeyError ''comment''),
           w\<lparr>files := (files w)(output \<mapsto>
                spec_preamble
                @ ''[[Question:TextEntry:Essay]]\<newline>[[ID:GOV0]]\<newline>''
                @ ''<h4><strong>Topic:</strong> '' @ py_str t
                @ ''</h4>\<newline><br/>\<newline>''
                @ ''<h3><strong>Opinion:</strong> '' @ py_str p
                @ ''</h3>\<newline><br/>\<newline>'')\<rparr>)"
    by simp
qed

theorem C3_missing_column_witness:
  "read_csv (parses_as bare_header_text bare_header_table) (disk bare_header_text) ''in.csv''
     = Inr bare_header_table
   \<and> well_formed bare_header_table
   \<and> \<not> list_all (\<lambda>c. c \<in> set (columns bare_header_table)) required
   \<and> ''out.txt'' \<notin> unwritable (disk bare_header_text)
   \<and> rows bare_header_table = []
   \<and> create_survey (parses_as bare_header_text bare_header_table) ''in.csv'' ''out.txt''
        (disk bare_header_text) =
       (None, (disk bare_header_text)\<lparr>files := (files (disk bare_header_text))
          (''out.txt'' \<mapsto> spec_preamble)\<rparr>)
   \<and> read_csv (parses_as no_topic_text no_topic_table) (disk no_topic_text) ''in.csv''
     = Inr no_topic_table
   \<and> well_formed no_topic_table
   \<and> \<not> list_all (\<lambda>c. c \<in> set (columns no_topic_table)) required
   \<and> ''out.txt'' \<notin> unwritable (disk no_topic_text)
   \<and> rows no_topic_table = [CStr ''Pro'', CStr ''It's real''] # []
   \<and> ''topic'' \<notin> set (columns no_topic_table)
   \<and> create_survey (parses_as no_topic_text no_topic_table) ''in.csv'' ''out.txt''
        (disk no_topic_text) =
       (Some (KeyError ''topic''),
        (disk no_topic_text)\<lparr>files := (files (disk no_topic_text))(''out.txt'' \<mapsto>
           spec_preamble @ ''[[Question:TextEntry:Essay]]\<newline>[[ID:GOV0]]\<newline>'')\<rparr>)
   \<and> read_csv (parses_as no_opinion_text no_opinion_table) (disk no_opinion_text) ''in.csv''
     = Inr no_opinion_table
   \<and> well_formed no_opinion_table
   \<and> \<not> list_all (\<lambda>c. c \<in> set (columns no_opinion_table)) required
   \<and> ''out.txt'' \<notin> unwritable (disk no_opinion_text)
   \<and> rows no_opinion_table
       = [CStr ''Climate'', CStr ''It's real''] # [[CStr ''Tax'', CStr ''Too high'']]
   \<and> (''topic'' \<in> set (columns no_opinion_table)
        \<and> ''opinion'' \<notin> set (columns no_opinion_table))
   \<and> create_survey (parses_as no_opinion_text no_opinion_table) ''in.csv'' ''out.txt''
        (disk no_opinion_text) =
       (Some (KeyError ''opinion''),
        (disk no_opinion_text)\<lparr>files := (files (disk no_opinion_text))(''out.txt'' \<mapsto>
           spec_preamble @ ''[[Question:TextEntry:Essay]]\<newline>[[ID:GOV0]]\<newline>''
           @ ''<h4><strong>Topic:</strong> '' @ py_str (CStr ''Climate'')
           @ ''</h4>\<newline><br/>\<newline>'')\<rparr>)
   \<and> read_csv (parses_as no_comment_text no_comment_table) (disk no_comment_text) ''in.csv''
     = Inr no_comment_table
   \<and> well_formed no_comment_table
   \<and> \<not> list_all (\<lambda>c. c \<in> set (columns no_comment_table)) required
   \<and> ''out.txt'' \<notin> unwritable (disk no_comment_text)
   \<and> rows no_comment_table = [CStr ''Climate'', CStr ''Pro''] # []
   \<and> (''topic'' \<in> set (columns no_comment_table)
        \<and> ''opinion'' \<in> set (columns no_comment_table))
   \<and> create_survey (parses_as no_comment_text no_comment_table) ''in.csv'' ''out.txt''
        (disk no_comment_text) =
       (Some (KeyError ''comment''),
        (disk no_comment_text)\<lparr>files := (files (disk no_comment_text))(''out.txt'' \<mapsto>
           spec_preamble @ ''[[Question:TextEntry:Essay]]\<newline>[[ID:GOV0]]\<newline>''
           @ ''<h4><strong>Topic:</strong> '' @ py_str (CStr ''Climate'')
           @ ''</h4>\<newline><br/>\<newline>''
           @ ''<h3><strong>Opinion:</strong> '' @ py_str (CStr ''Pro'')
           @ ''</h3>\<newline><br/>\<newline>'')\<rparr>)"
proof -
  have a1: "read_csv (parses_as bare_header_text bare_header_table) (disk bare_header_text)
              ''in.csv'' = Inr bare_header_table"
    by (simp add: read_csv_def parses_as_def disk_def)
  have a2: "well_formed bare_header_table"
    by (simp add: well_formed_def bare_header_table_def)
  have a3: "\<not> list_all (\<lambda>c. c \<in> set (columns bare_header_table)) required"
    by (simp add: bare_header_table_def required_def)
  have a4: "''out.txt'' \<notin> unwritable (disk bare_header_text)" by (simp add: disk_def)
  have a5: "rows bare_header_table = []" by (simp add: bare_header_table_def)
  have b1: "read_csv (parses_as no_topic_text no_topic_table) (disk no_topic_text) ''in.csv''
     = Inr no_topic_table"
    by (simp add: read_csv_def parses_as_def disk_def)
  have b2: "well_formed no_topic_table"
    by (simp add: well_formed_def no_topic_table_def)
  have b3: "\<not> list_all (\<lambda>c. c \<in> set (columns no_topic_table)) required"
    by (simp add: no_topic_table_def required_def)
  have b4: "''out.txt'' \<notin> unwritable (disk no_topic_text)" by (simp add: disk_def)
  have b5: "rows no_topic_table = [CStr ''Pro'', CStr ''It's real''] # []"
    by (simp add: no_topic_table_def)
  have b6: "''topic'' \<notin> set (columns no_topic_table)" by (simp add: no_topic_table_def)
  have c1: "read_csv (parses_as no_opinion_text no_opinion_table) (disk no_opinion_text)
              ''in.csv'' = Inr no_opinion_table"
    by (simp add: read_csv_def parses_as_def disk_def)
  have c2: "well_formed no_opinion_table"
    by (simp add: well_formed_def no_opinion_table_def)
  have c3: "\<not> list_all (\<lambda>c. c \<in> set (columns no_opinion_table)) required"
    by (simp add: no_opinion_table_def required_def)
  have c4: "''out.txt'' \<notin> unwritable (disk no_opinion_text)" by (simp add: disk_def)
  have c5: "rows no_opinion_table
       = [CStr ''Climate'', CStr ''It's real''] # [[CStr ''Tax'', CStr ''Too high'']]"
    by (simp add: no_opinion_table_def)
  have c6: "''topic'' \<in> set (columns no_opinion_table)
        \<and> ''opinion'' \<notin> set (columns no_opinion_table)"
    by (simp add: no_opinion_table_def)
  have c7: "series_of no_opinion_table [CStr ''Climate'', CStr ''It's real''] ''topic''
              = Some (CStr ''Climate'')"
    by (simp add: series_of_def no_opinion_table_def)
  have d1: "read_csv (parses_as no_comment_text no_comment_table) (disk no_comment_text)
              ''in.csv'' = Inr no_comment_table"
    by (simp add: read_csv_def parses_as_def disk_def)
  have d2: "well_formed no_comment_table"
    by (simp add: well_formed_def no_comment_table_def)
  have d3: "\<not> list_all (\<lambda>c. c \<in> set (columns no_comment_table)) required"
    by (simp add: no_comment_table_def required_def)
  have d4: "''out.txt'' \<notin> unwritable (disk no_comment_text)" by (simp add: disk_def)
  have d5: "rows no_comment_table = [CStr ''Climate'', CStr ''Pro''] # []"
    by (simp add: no_comment_table_def)
  have d6: "''topic'' \<in> set (columns no_comment_table)
        \<and> ''opinion'' \<in> set (columns no_comment_table)"
    by (simp add: no_comment_table_def)
  have d7: "series_of no_comment_table [CStr ''Climate'', CStr ''Pro''] ''topic''
              = Some (CStr ''Climate'')"
    "series_of no_comment_table [CStr ''Climate'', CStr ''Pro''] ''opinion''
              = Some (CStr ''Pro'')"
    by (simp_all add: series_of_def no_comment_table_def)
  note A = C3_missing_column [OF a1 a2 a3 a4]
  note B = C3_missing_column [OF b1 b2 b3 b4]
  note C = C3_missing_column [OF c1 c2 c3 c4]
  note D = C3_missing_column [OF d1 d2 d3 d4]
  have ra: "create_survey (parses_as bare_header_text bare_header_table) ''in.csv'' ''out.txt''
        (disk bare_header_text) =
       (None, (disk bare_header_text)\<lparr>files := (files (disk bare_header_text))
          (''out.txt'' \<mapsto> spec_preamble)\<rparr>)"
    using A a5 by blast
  have rb: "create_survey (parses_as no_topic_text no_topic_table) ''in.csv'' ''out.txt''
        (disk no_topic_text) =
       (Some (KeyError ''topic''),
        (disk no_topic_text)\<lparr>files := (files (disk no_topic_text))(''out.txt'' \<mapsto>
           spec_preamble @ ''[[Question:TextEntry:Essay]]\<newline>[[ID:GOV0]]\<newline>'')\<rparr>)"
    using B b5 b6 by blast
  have rc: "create_survey (parses_as no_opinion_text no_opinion_table) ''in.csv'' ''out.txt''
        (disk no_opinion_text) =
       (Some (KeyError ''opinion''),
        (disk no_opinion_text)\<lparr>files := (files (disk no_opinion_text))(''out.txt'' \<mapsto>
           spec_preamble @ ''[[Question:TextEntry:Essay]]\<newline>[[ID:GOV0]]\<newline>''
           @ ''<h4><strong>Topic:</strong> '' @ py_str (CStr ''Climate'')
           @ ''</h4>\<newline><br/>\<newline>'')\<rparr>)"
    using C c5 c6 c7 by (metis option.inject)
  have rd: "create_survey (parses_as no_comment_text no_comment_table) ''in.csv'' ''out.txt''
        (disk no_comment_text) =
       (Some (KeyError ''comment''),
        (disk no_comment_text)\<lparr>files := (files (disk no_comment_text))(''out.txt'' \<mapsto>
           spec_preamble @ ''[[Question:TextEntry:Essay]]\<newline>[[ID:GOV0]]\<newline>''
           @ ''<h4><strong>Topic:</strong> '' @ py_str (CStr ''Climate'')
           @ ''</h4>\<newline><br/>\<newline>''
           @ ''<h3><strong>Opinion:</strong> '' @ py_str (CStr ''Pro'')
           @ ''</h3>\<newline><br/>\<newline>'')\<rparr>)"
    using D d5 d6 d7 by (metis option.inject)
  show ?thesis
    by (intro conjI a1 a2 a3 a4 a5 b1 b2 b3 b4 b5 b6 c1 c2 c3 c4 c5 d1 d2 d3 d4 d5 ra rb rc rd
          conjunct1 [OF c6] conjunct2 [OF c6] conjunct1 [OF d6] conjunct2 [OF d6])
qed

text \<open>
  Claim C3 as stated fails on a table without the topic column and with one data row:
  the conversion fails, and the output file holds the beginning of a row block after
  the preamble.
\<close>

theorem C3_missing_column_counterexample:
  "fst (create_survey (parses_as no_topic_text no_topic_table) ''in.csv'' ''out.txt''
          (disk no_topic_text)) = Some (KeyError ''topic'')
   \<and> files (snd (create_survey (parses_as no_topic_text no_topic_table) ''in.csv''
          ''out.txt'' (disk no_topic_text))) ''out.txt'' =
       Some (''[[AdvancedFormat]]\<newline>\<newline>[[Block:GOVBlock]]\<newline>\<newline>''
             @ ''[[Question:TextEntry:Essay]]\<newline>[[ID:GOV0]]\<newline>'')"
  by (simp add: create_survey_def read_csv_def parses_as_def disk_def open_write_def
        survey_body_def iterrows_def no_topic_table_def series_of_def write_row_def
        getitem_def write_str_def close_def decimal_0)

text \<open>
  Claim C4. For the table of the specification's example, with the rows
  (Climate, Pro, It's real) and (Tax, Con, Too high), the conversion succeeds and the
  output file holds exactly the text of the example, given here line by line.
\<close>

theorem C4_spec_example:
  "fst (create_survey (parses_as example_text example_table) ''in.csv'' ''out.txt''
          (disk example_text)) = None
   \<and> files (snd (create_survey (parses_as example_text example_table) ''in.csv'' ''out.txt''
          (disk example_text))) ''out.txt'' =
     Some (''[[AdvancedFormat]]\<newline>''
        @ ''\<newline>''
        @ ''[[Block:GOVBlock]]\<newline>''
        @ ''\<newline>''
        @ ''[[Question:TextEntry:Essay]]\<newline>''
        @ ''[[ID:GOV0]]\<newline>''
        @ ''<h4><strong>Topic:</strong> Climate</h4>\<newline>''
        @ ''<br/>\<newline>''
        @ ''<h3><strong>Opinion:</strong> Pro</h3>\<newline>''
        @ ''<br/>\<newline>''
        @ ''<p><strong>&ldquo;It's real&rdquo;</strong></p>\<newline>''
        @ ''\<newline>''
        @ ''[[Question:TextEntry:Essay]]\<newline>''
        @ ''[[ID:GOV1]]\<newline>''
        @ ''<h4><strong>Topic:</strong> Tax</h4>\<newline>''
        @ ''<br/>\<newline>''
        @ ''<h3><strong>Opinion:</strong> Con</h3>\<newline>''
        @ ''<br/>\<newline>''
        @ ''<p><strong>&ldquo;Too high&rdquo;</strong></p>'')"
  by (simp add: create_survey_def read_csv_def parses_as_def disk_def open_write_def
        survey_body_def iterrows_def example_table_def series_of_def write_row_def
        getitem_def write_str_def close_def decimal.simps enumerate_eq_zip upt_rec digit_chars)

text \<open>
  Claim C5, as amended. For every row of a valid table whose topic, opinion and comment
  are text cells of the parsed table, holding the strings \<open>t\<close>, \<open>p\<close> and \<open>c\<close>, the three
  field lines written for the row hold exactly those strings, unchanged and unescaped,
  at the places of the templates. This holds for every string, with or without markup
  characters. It does not hold for a field that the parser does not read as text.
\<close>

theorem C5_fields_verbatim:
  assumes "valid_table props" "k < length (rows props)"
    "series_of props (rows props ! k) ''topic'' = Some (CStr t)"
    "series_of props (rows props ! k) ''opinion'' = Some (CStr p)"
    "series_of props (rows props ! k) ''comment'' = Some (CStr c)"
  shows "written (snd (survey_body props \<lparr>path = output, written = []\<rparr>)) ! (2 + 6 * k + 3)
           = ''<h4><strong>Topic:</strong> '' @ t @ ''</h4>\<newline><br/>\<newline>''
         \<and> written (snd (survey_body props \<lparr>path = output, written = []\<rparr>)) ! (2 + 6 * k + 4)
           = ''<h3><strong>Opinion:</strong> '' @ p @ ''</h3>\<newline><br/>\<newline>''
         \<and> written (snd (survey_body props \<lparr>path = output, written = []\<rparr>)) ! (2 + 6 * k + 5)
           = ''<p><strong>&ldquo;'' @ c @ ''&rdquo;</strong></p>''"
proof -
  from survey_body_chunks [OF assms(1,2), of "output"] obtain t' p' c' where
    rc: "required_cells (series_of props (rows props ! k)) = Some (t', p', c')" and
    nth: "\<And>j. j < 6 \<Longrightarrow>
            written (snd (survey_body props \<lparr>path = output, written = []\<rparr>)) ! (2 + 6 * k + j)
              = row_chunks (if k = 0 then [] else ''\<newline>\<newline>'') k t' p' c' ! j"
    by blast
  have eq: "t' = CStr t" "p' = CStr p" "c' = CStr c"
    using rc assms(3-5) by (simp_all add: required_cells_def)
  show ?thesis
    using nth [of 3] nth [of 4] nth [of 5] by (simp add: eq row_chunks_def)
qed

theorem C5_fields_verbatim_witness:
  "valid_table example_table \<and> (1::nat) < length (rows example_table)
   \<and> series_of example_table (rows example_table ! 1) ''topic'' = Some (CStr ''Tax'')
   \<and> series_of example_table (rows example_table ! 1) ''opinion'' = Some (CStr ''Con'')
   \<and> series_of example_table (rows example_table ! 1) ''comment'' = Some (CStr ''Too high'')
   \<and> written (snd (survey_body example_table \<lparr>path = ''out.txt'', written = []\<rparr>))
         ! (2 + 6 * 1 + 3)
       = ''<h4><strong>Topic:</strong> '' @ ''Tax'' @ ''</h4>\<newline><br/>\<newline>''
   \<and> written (snd (survey_body example_table \<lparr>path = ''out.txt'', written = []\<rparr>))
         ! (2 + 6 * 1 + 4)
       = ''<h3><strong>Opinion:</strong> '' @ ''Con'' @ ''</h3>\<newline><br/>\<newline>''
   \<and> written (snd (survey_body example_table \<lparr>path = ''out.txt'', written = []\<rparr>))
         ! (2 + 6 * 1 + 5)
       = ''<p><strong>&ldquo;'' @ ''Too high'' @ ''&rdquo;</strong></p>''"
proof -
  have h1: "valid_table example_table"
    by (simp add: valid_table_def well_formed_def example_table_def required_def)
  have h2: "(1::nat) < length (rows example_table)"
    by (simp add: example_table_def)
  have h3: "series_of example_table (rows example_table ! 1) ''topic'' = Some (CStr ''Tax'')"
    by (simp add: series_of_def example_table_def)
  have h4: "series_of example_table (rows example_table ! 1) ''opinion'' = Some (CStr ''Con'')"
    by (simp add: series_of_def example_table_def)
  have h5: "series_of example_table (rows example_table ! 1) ''comment''
              = Some (CStr ''Too high'')"
    by (simp add: series_of_def example_table_def)
  from C5_fields_verbatim [OF h1 h2 h3 h4 h5, of "''out.txt''"] h1 h2 h3 h4 h5
  show ?thesis by blast
qed

text \<open>
  Claim C5 as stated fails on a row whose topic is the field \<^verbatim>\<open>NA\<close>, which has no
  markup character: the parser reads it as a missing value and the topic line holds
  \<^verbatim>\<open>nan\<close>, not the field.
\<close>

theorem C5_fields_verbatim_counterexample:
  "files (snd (create_survey (pandas_parse plain_csv keep_text) ''in.csv'' ''out.txt''
                 (disk na_text))) ''out.txt'' =
     Some (''[[AdvancedFormat]]\<newline>\<newline>[[Block:GOVBlock]]\<newline>\<newline>''
        @ ''[[Question:TextEntry:Essay]]\<newline>''
        @ ''[[ID:GOV0]]\<newline>''
        @ ''<h4><strong>Topic:</strong> nan</h4>\<newline><br/>\<newline>''
        @ ''<h3><strong>Opinion:</strong> Pro</h3>\<newline><br/>\<newline>''
        @ ''<p><strong>&ldquo;Fine&rdquo;</strong></p>'')"
proof -
  have tok: "plain_csv na_text
               = Inr ([''topic'', ''opinion'', ''comment''], [[''NA'', ''Pro'', ''Fine'']])"
    by (simp add: plain_csv_def na_text_def)
  have fr: "frame keep_text [''topic'', ''opinion'', ''comment''] [[''NA'', ''Pro'', ''Fine'']]
              = \<lparr>columns = [''topic'', ''opinion'', ''comment''],
                 rows = [[CNaN, CStr ''Pro'', CStr ''Fine'']]\<rparr>"
    by (simp add: frame_def to_cell_def na_values_def keep_text_def)
  show ?thesis
    by (simp add: create_survey_def read_csv_def pandas_parse_def tok fr disk_def
          open_write_def survey_body_def iterrows_def series_of_def write_row_def
          getitem_def write_str_def close_def decimal_0)
qed

text \<open>
  Claim C6. For every table with zero data rows, whatever its header, the conversion
  succeeds and the output file holds exactly the preamble: no row block and no
  separator.
\<close>

theorem C6_header_only:
  assumes "read_csv parse w filename = Inr props" "rows props = []"
    "output \<notin> unwritable w"
  shows "create_survey parse filename output w =
           (None, w\<lparr>files := (files w)(output \<mapsto>
              ''[[AdvancedFormat]]\<newline>\<newline>[[Block:GOVBlock]]\<newline>\<newline>'')\<rparr>)"
  by (simp add: create_survey_opened [OF assms(1,3)] survey_body_def iterrows_def assms(2))

theorem C6_header_only_witness:
  "read_csv (parses_as header_text header_table) (disk header_text) ''in.csv''
     = Inr header_table
   \<and> rows header_table = []
   \<and> ''out.txt'' \<notin> unwritable (disk header_text)
   \<and> create_survey (parses_as header_text header_table) ''in.csv'' ''out.txt''
        (disk header_text) =
       (None, (disk header_text)\<lparr>files := (files (disk header_text))(''out.txt'' \<mapsto>
          ''[[AdvancedFormat]]\<newline>\<newline>[[Block:GOVBlock]]\<newline>\<newline>'')\<rparr>)"
proof -
  have h1: "read_csv (parses_as header_text header_table) (disk header_text) ''in.csv''
     = Inr header_table"
    by (simp add: read_csv_def parses_as_def disk_def)
  have h2: "rows header_table = []" by (simp add: header_table_def)
  have h3: "''out.txt'' \<notin> unwritable (disk header_text)" by (simp add: disk_def)
  from C6_header_only [OF h1 h2 h3] h1 h2 h3 show ?thesis by blast
qed




text \<open>
  Claim C8. For every call whose input path names no readable file, the conversion
  fails with a \<open>FileError\<close> on that path and the file system is unchanged: the output
  file is neither created nor overwritten.
\<close>

theorem C8_unreadable_input:
  assumes "files w filename = None \<or> filename \<in> unreadable w"
  shows "create_survey parse filename output w = (Some (FileError filename), w)"
  using assms by (auto simp: create_survey_def read_csv_def split: option.splits)

theorem C8_unreadable_input_witness:
  "(files (disk example_text) ''missing.csv'' = None
      \<or> ''missing.csv'' \<in> unreadable (disk example_text))
   \<and> create_survey (parses_as example_text example_table) ''missing.csv'' ''out.txt''
        (disk example_text)
       = (Some (FileError ''missing.csv''), disk example_text)"
proof -
  have h: "files (disk example_text) ''missing.csv'' = None
      \<or> ''missing.csv'' \<in> unreadable (disk example_text)"
    by (simp add: disk_def)
  from C8_unreadable_input [OF h] h show ?thesis by blast
qed

text \<open>
  Claim C9. On every call that opens the output file, which is every call whose input
  is read and whose output path can be written, the file object is closed when the
  call returns and the file holds everything the body wrote, whether the body ended
  normally or with an error raised while rendering a row.
\<close>

theorem C9_sink_closed:
  assumes "read_csv parse w filename = Inr props" "output \<notin> unwritable w"
  shows "opened (snd (create_survey parse filename output w)) = opened w
         \<and> files (snd (create_survey parse filename output w)) output =
             Some (concat (written (snd (survey_body props \<lparr>path = output, written = []\<rparr>))))
         \<and> fst (create_survey parse filename output w) =
             fst (survey_body props \<lparr>path = output, written = []\<rparr>)"
  by (simp add: create_survey_opened [OF assms])

theorem C9_sink_closed_witness:
  "read_csv (parses_as no_topic_text no_topic_table) (disk no_topic_text) ''in.csv''
     = Inr no_topic_table
   \<and> ''out.txt'' \<notin> unwritable (disk no_topic_text)
   \<and> opened (snd (create_survey (parses_as no_topic_text no_topic_table) ''in.csv''
        ''out.txt'' (disk no_topic_text))) = opened (disk no_topic_text)
   \<and> files (snd (create_survey (parses_as no_topic_text no_topic_table) ''in.csv''
        ''out.txt'' (disk no_topic_text))) ''out.txt'' =
       Some (concat (written (snd (survey_body no_topic_table
                                     \<lparr>path = ''out.txt'', written = []\<rparr>))))
   \<and> fst (create_survey (parses_as no_topic_text no_topic_table) ''in.csv''
        ''out.txt'' (disk no_topic_text)) =
       fst (survey_body no_topic_table \<lparr>path = ''out.txt'', written = []\<rparr>)"
proof -
  have h1: "read_csv (parses_as no_topic_text no_topic_table) (disk no_topic_text) ''in.csv''
     = Inr no_topic_table"
    by (simp add: read_csv_def parses_as_def disk_def)
  have h2: "''out.txt'' \<notin> unwritable (disk no_topic_text)" by (simp add: disk_def)
  from C9_sink_closed [OF h1 h2] h1 h2 show ?thesis by blast
qed

text \<open>
  Claim C10. For every input whose table has the required columns, the conversion does
  not fail, and for every row a required field that is empty is read as NaN and written
  as the text \<^verbatim>\<open>nan\<close> at the place of its template, not as an empty string. This holds
  for every tokenizer and every inference of the other fields; the file holds the
  strings written.
\<close>

theorem C10_empty_cell_nan:
  assumes "files w filename = Some csv" "filename \<notin> unreadable w"
    "tokenize csv = Inr (names, table)"
    "list_all (\<lambda>r. length r = length names) table"
    "list_all (\<lambda>c. c \<in> set names) required"
    "k < length table" "output \<notin> unwritable w"
  shows "fst (create_survey (pandas_parse tokenize infer) filename output w) = None
         \<and> files (snd (create_survey (pandas_parse tokenize infer) filename output w)) output
             = Some (concat (written (snd (survey_body (frame infer names table)
                                             \<lparr>path = output, written = []\<rparr>))))
         \<and> (map_of (zip names (table ! k)) ''topic'' = Some [] \<longrightarrow>
              written (snd (survey_body (frame infer names table)
                              \<lparr>path = output, written = []\<rparr>)) ! (2 + 6 * k + 3)
                = ''<h4><strong>Topic:</strong> nan</h4>\<newline><br/>\<newline>'')
         \<and> (map_of (zip names (table ! k)) ''opinion'' = Some [] \<longrightarrow>
              written (snd (survey_body (frame infer names table)
                              \<lparr>path = output, written = []\<rparr>)) ! (2 + 6 * k + 4)
                = ''<h3><strong>Opinion:</strong> nan</h3>\<newline><br/>\<newline>'')
         \<and> (map_of (zip names (table ! k)) ''comment'' = Some [] \<longrightarrow>
              written (snd (survey_body (frame infer names table)
                              \<lparr>path = output, written = []\<rparr>)) ! (2 + 6 * k + 5)
                = ''<p><strong>&ldquo;nan&rdquo;</strong></p>'')"
proof -
  let ?props = "frame infer names table"
  have rd: "read_csv (pandas_parse tokenize infer) w filename = Inr ?props"
    using assms(1-3) by (simp add: read_csv_def pandas_parse_def)
  have valid: "valid_table ?props" by (rule valid_frame [OF assms(4,5)])
  have k: "k < length (rows ?props)" using assms(6) by (simp add: frame_def)
  have cell: "series_of ?props (rows ?props ! k) c = Some CNaN"
    if "map_of (zip names (table ! k)) c = Some []" for c
    using that by (simp add: series_of_frame [OF assms(6)] to_cell_empty)
  from survey_body_nan [OF valid k, of "output"] cell
  show ?thesis
    by (simp add: create_survey_opened [OF rd assms(7)])
qed

theorem C10_empty_cell_nan_witness:
  "files (disk gaps_text) ''in.csv'' = Some gaps_text
   \<and> ''in.csv'' \<notin> unreadable (disk gaps_text)
   \<and> plain_csv gaps_text
       = Inr ([''topic'', ''opinion'', ''comment''], [[''Tax'', ''Con'', ''Too high''], [[], [], []]])
   \<and> list_all (\<lambda>r. length r = length [''topic'', ''opinion'', ''comment''])
         [[''Tax'', ''Con'', ''Too high''], [[], [], []]]
   \<and> list_all (\<lambda>c. c \<in> set [''topic'', ''opinion'', ''comment'']) required
   \<and> (1::nat) < length [[''Tax'', ''Con'', ''Too high''], [[], [], []]]
   \<and> ''out.txt'' \<notin> unwritable (disk gaps_text)
   \<and> map_of (zip [''topic'', ''opinion'', ''comment'']
          ([[''Tax'', ''Con'', ''Too high''], [[], [], []]] ! 1)) ''topic'' = Some []
   \<and> map_of (zip [''topic'', ''opinion'', ''comment'']
          ([[''Tax'', ''Con'', ''Too high''], [[], [], []]] ! 1)) ''opinion'' = Some []
   \<and> map_of (zip [''topic'', ''opinion'', ''comment'']
          ([[''Tax'', ''Con'', ''Too high''], [[], [], []]] ! 1)) ''comment'' = Some []
   \<and> fst (create_survey (pandas_parse plain_csv keep_text) ''in.csv'' ''out.txt''
            (disk gaps_text)) = None
   \<and> files (snd (create_survey (pandas_parse plain_csv keep_text) ''in.csv'' ''out.txt''
            (disk gaps_text))) ''out.txt''
       = Some (concat (written (snd (survey_body
            (frame keep_text [''topic'', ''opinion'', ''comment'']
               [[''Tax'', ''Con'', ''Too high''], [[], [], []]])
            \<lparr>path = ''out.txt'', written = []\<rparr>))))
   \<and> written (snd (survey_body
            (frame keep_text [''topic'', ''opinion'', ''comment'']
               [[''Tax'', ''Con'', ''Too high''], [[], [], []]])
            \<lparr>path = ''out.txt'', written = []\<rparr>)) ! (2 + 6 * 1 + 3)
       = ''<h4><strong>Topic:</strong> nan</h4>\<newline><br/>\<newline>''
   \<and> written (snd (survey_body
            (frame keep_text [''topic'', ''opinion'', ''comment'']
               [[''Tax'', ''Con'', ''Too high''], [[], [], []]])
            \<lparr>path = ''out.txt'', written = []\<rparr>)) ! (2 + 6 * 1 + 4)
       = ''<h3><strong>Opinion:</strong> nan</h3>\<newline><br/>\<newline>''
   \<and> written (snd (survey_body
            (frame keep_text [''topic'', ''opinion'', ''comment'']
               [[''Tax'', ''Con'', ''Too high''], [[], [], []]])
            \<lparr>path = ''out.txt'', written = []\<rparr>)) ! (2 + 6 * 1 + 5)
       = ''<p><strong>&ldquo;nan&rdquo;</strong></p>''"
proof -
  have h1: "files (disk gaps_text) ''in.csv'' = Some gaps_text" by (simp add: disk_def)
  have h2: "''in.csv'' \<notin> unreadable (disk gaps_text)" by (simp add: disk_def)
  have h3: "plain_csv gaps_text
       = Inr ([''topic'', ''opinion'', ''comment''], [[''Tax'', ''Con'', ''Too high''], [[], [], []]])"
    by (simp add: plain_csv_def gaps_text_def)
  have h4: "list_all (\<lambda>r. length r = length [''topic'', ''opinion'', ''comment''])
         [[''Tax'', ''Con'', ''Too high''], [[], [], []]]"
    by simp
  have h5: "list_all (\<lambda>c. c \<in> set [''topic'', ''opinion'', ''comment'']) required"
    by (simp add: required_def)
  have h6: "(1::nat) < length [[''Tax'', ''Con'', ''Too high''], [[], [], []]]" by simp
  have h7: "''out.txt'' \<notin> unwritable (disk gaps_text)" by (simp add: disk_def)
  have a1: "map_of (zip [''topic'', ''opinion'', ''comment'']
          ([[''Tax'', ''Con'', ''Too high''], [[], [], []]] ! 1)) ''topic'' = Some []"
    by simp
  have a2: "map_of (zip [''topic'', ''opinion'', ''comment'']
          ([[''Tax'', ''Con'', ''Too high''], [[], [], []]] ! 1)) ''opinion'' = Some []"
    by simp
  have a3: "map_of (zip [''topic'', ''opinion'', ''comment'']
          ([[''Tax'', ''Con'', ''Too high''], [[], [], []]] ! 1)) ''comment'' = Some []"
    by simp
  from C10_empty_cell_nan [where tokenize = plain_csv and csv = gaps_text
      and infer = keep_text, OF h1 h2 h3 h4 h5 h6 h7] h1 h2 h3 h4 h5 h6 h7 a1 a2 a3
  show ?thesis by blast
qed

end
